theory Spec2Isabelle
  imports Complex_Main "HOL-Library.Log_Nat"
begin

section \<open>Single-precision arithmetic\<close>

text \<open>
  The fields of \<^verbatim>\<open>Particle\<close> and the argument of \<^verbatim>\<open>update\<close> are C++
  \<^verbatim>\<open>float\<close>s: IEEE 754 binary32 values. A value is a finite number with a sign
  (so that \<open>+0\<close> and \<open>-0\<close> differ), an infinity with a sign, or a NaN; all NaNs are
  identified. A finite magnitude is kept as the rational number it denotes.

  Every operation computes the exact result and rounds it once, to the nearest binary32
  value, ties to the even significand; a rounded magnitude of \<open>2^128\<close> or more is an
  infinity. Each \<^verbatim>\<open>+\<close>, \<^verbatim>\<open>*\<close> and \<^verbatim>\<open>/\<close> of the source is one such
  operation: no fused multiply-add and no wider intermediate format.
\<close>

datatype float = Finite bool rat | Infinity bool | NaN

definition pow2 :: "int \<Rightarrow> rat" where
  "pow2 e = (if 0 \<le> e then 2 ^ nat e else 1 / 2 ^ nat (- e))"

text \<open>
  The binary exponent of a positive rational \<open>q\<close>: the \<open>e\<close> with \<open>2^e \<le> q < 2^(e+1)\<close>.
  The difference of the bit lengths of numerator and denominator is \<open>e\<close> or \<open>e + 1\<close>.
\<close>

definition exponent :: "rat \<Rightarrow> int" where
  "exponent q =
     (let (n, d) = quotient_of q;
          a = bitlen n - bitlen d
      in if pow2 a \<le> q then a else a - 1)"

text \<open>
  The spacing of the binary32 values around \<open>q\<close>: 24 significant bits, and \<open>2^-149\<close>
  in the subnormal range.
\<close>

definition ulp :: "rat \<Rightarrow> rat" where
  "ulp q = pow2 (max (exponent q - 23) (- 149))"

definition nearest_even :: "rat \<Rightarrow> int" where
  "nearest_even x =
     (let f = \<lfloor>x\<rfloor>; r = x - of_int f
      in if r < 1 / 2 then f
         else if 1 / 2 < r then f + 1
         else if even f then f else f + 1)"

definition round_mag :: "rat \<Rightarrow> rat" where
  "round_mag q = of_int (nearest_even (q / ulp q)) * ulp q"

definition round32 :: "bool \<Rightarrow> rat \<Rightarrow> float" where
  "round32 s q =
     (if q = 0 then Finite s 0
      else if 2 ^ 128 \<le> round_mag q then Infinity s
      else Finite s (round_mag q))"

definition signed :: "bool \<Rightarrow> rat \<Rightarrow> rat" where
  "signed s q = (if s then - q else q)"

text \<open>
  An exact sum of zero is \<open>-0\<close> only when both operands are negative zeros.
\<close>

fun fadd :: "float \<Rightarrow> float \<Rightarrow> float" where
  "fadd NaN y = NaN"
| "fadd x NaN = NaN"
| "fadd (Infinity s) (Infinity t) = (if s = t then Infinity s else NaN)"
| "fadd (Infinity s) (Finite t r) = Infinity s"
| "fadd (Finite s q) (Infinity t) = Infinity t"
| "fadd (Finite s q) (Finite t r) =
     (let v = signed s q + signed t r
      in if v = 0 then Finite (s \<and> t) 0 else round32 (v < 0) \<bar>v\<bar>)"

fun fmul :: "float \<Rightarrow> float \<Rightarrow> float" where
  "fmul NaN y = NaN"
| "fmul x NaN = NaN"
| "fmul (Infinity s) (Infinity t) = Infinity (s \<noteq> t)"
| "fmul (Infinity s) (Finite t r) = (if r = 0 then NaN else Infinity (s \<noteq> t))"
| "fmul (Finite s q) (Infinity t) = (if q = 0 then NaN else Infinity (s \<noteq> t))"
| "fmul (Finite s q) (Finite t r) = round32 (s \<noteq> t) (q * r)"

fun fdiv :: "float \<Rightarrow> float \<Rightarrow> float" where
  "fdiv NaN y = NaN"
| "fdiv x NaN = NaN"
| "fdiv (Infinity s) (Infinity t) = NaN"
| "fdiv (Infinity s) (Finite t r) = Infinity (s \<noteq> t)"
| "fdiv (Finite s q) (Infinity t) = Finite (s \<noteq> t) 0"
| "fdiv (Finite s q) (Finite t r) =
     (if r = 0 then (if q = 0 then NaN else Infinity (s \<noteq> t))
      else round32 (s \<noteq> t) (q / r))"

text \<open>The comparison \<^verbatim>\<open><=\<close>: false as soon as an operand is a NaN.\<close>

fun fle :: "float \<Rightarrow> float \<Rightarrow> bool" where
  "fle NaN y = False"
| "fle x NaN = False"
| "fle (Infinity s) (Infinity t) = (s \<or> \<not> t)"
| "fle (Infinity s) (Finite t r) = s"
| "fle (Finite s q) (Infinity t) = (\<not> t)"
| "fle (Finite s q) (Finite t r) = (signed s q \<le> signed t r)"

text \<open>The comparisons \<^verbatim>\<open>>=\<close>, \<^verbatim>\<open><\<close> and \<^verbatim>\<open>==\<close>.\<close>

definition fge :: "float \<Rightarrow> float \<Rightarrow> bool" where
  "fge x y = fle y x"



text \<open>A decimal literal with the suffix \<^verbatim>\<open>f\<close>: the nearest binary32 value.\<close>

definition float_lit :: "rat \<Rightarrow> float" where
  "float_lit q = round32 (q < 0) \<bar>q\<bar>"

fun is_finite :: "float \<Rightarrow> bool" where
  "is_finite (Finite s q) = True"
| "is_finite (Infinity s) = False"
| "is_finite NaN = False"

fun is_nan :: "float \<Rightarrow> bool" where
  "is_nan (Finite s q) = False"
| "is_nan (Infinity s) = False"
| "is_nan NaN = True"



text \<open>
  The magnitudes that binary32 has: below \<open>2^128\<close> and a whole multiple of the spacing
  at their own exponent. The datatype has other rationals too; a statement that depends
  on a value being a binary32 value says so.
\<close>

definition representable :: "rat \<Rightarrow> bool" where
  "representable q =
     (0 \<le> q \<and> q < 2 ^ 128 \<and> (q = 0 \<or> of_int \<lfloor>q / ulp q\<rfloor> = q / ulp q))"

fun is_float32 :: "float \<Rightarrow> bool" where
  "is_float32 (Finite s q) = representable q"
| "is_float32 (Infinity s) = True"
| "is_float32 NaN = True"




section \<open>The one-dimensional inelastic collision simulation\<close>

text \<open>
  The embedding follows \<^verbatim>\<open>src/inelastic_collision/main.cpp\<close>: the struct
  \<^verbatim>\<open>Particle\<close> and the class \<^verbatim>\<open>Simulation\<close>. Each member function
  takes the simulation state and returns the new one.
\<close>

subsection \<open>Data\<close>

record Particle =
  mass :: float
  velocity :: float
  x_pos :: float

record Simulation =
  particles :: "Particle list"
  initial :: "Particle list"
  hasCollided :: bool

text \<open>A default-constructed \<^verbatim>\<open>Simulation\<close>: two empty vectors, the flag false.\<close>

definition newSimulation :: Simulation where
  "newSimulation = \<lparr>particles = [], initial = [], hasCollided = False\<rparr>"

subsection \<open>Member functions\<close>

definition addParticle :: "Particle \<Rightarrow> Simulation \<Rightarrow> Simulation" where
  "addParticle p s = s\<lparr>particles := particles s @ [p]\<rparr>"

definition reset :: "Simulation \<Rightarrow> Simulation" where
  "reset s = s\<lparr>particles := initial s, hasCollided := False\<rparr>"

definition setInitial :: "Particle list \<Rightarrow> Simulation \<Rightarrow> Simulation" where
  "setInitial init s = s\<lparr>initial := init, particles := init, hasCollided := False\<rparr>"

definition getParticles :: "Simulation \<Rightarrow> Particle list" where
  "getParticles s = particles s"

text \<open>The literal \<^verbatim>\<open>0.5f\<close>; it is a binary32 value.\<close>

definition half :: float where
  "half = Finite False (1 / 2)"



text \<open>
  \<^verbatim>\<open>handleCollision\<close> computes the two energies and drops them; only the final
  velocity is returned. The division is a float division: a zero mass sum gives an
  infinity or a NaN.
\<close>

definition handleCollision :: "Particle \<Rightarrow> Particle \<Rightarrow> float" where
  "handleCollision p1 p2 =
     (let init_momentum = fadd (fmul (mass p1) (velocity p1)) (fmul (mass p2) (velocity p2));
          final_velocity = fdiv init_momentum (fadd (mass p1) (mass p2))
      in final_velocity)"

text \<open>The body of the range-based loop of \<^verbatim>\<open>update\<close>, for one particle.\<close>

definition advance :: "float \<Rightarrow> Particle \<Rightarrow> Particle" where
  "advance dt p = p\<lparr>x_pos := fadd (x_pos p) (fmul (velocity p) dt)\<rparr>"

definition update :: "float \<Rightarrow> Simulation \<Rightarrow> Simulation" where
  "update dt s =
     (let ps = map (advance dt) (particles s) in
      if 2 \<le> length ps \<and> \<not> hasCollided s then
        (let p1 = ps ! 0; p2 = ps ! 1 in
         if fge (x_pos p1) (x_pos p2) then
           (let vf = handleCollision p1 p2;
                combined = \<lparr>mass = fadd (mass p1) (mass p2), velocity = vf,
                            x_pos = fmul half (fadd (x_pos p1) (x_pos p2))\<rparr>
            in s\<lparr>particles := [combined], hasCollided := True\<rparr>)
         else s\<lparr>particles := ps\<rparr>)
      else s\<lparr>particles := ps\<rparr>)"

subsection \<open>The driver's view: sequences of calls\<close>

text \<open>
  The public interface, as the calls a driver can make. \<^verbatim>\<open>getParticles\<close> is
  const and is left out.
\<close>

datatype command =
    AddParticle Particle
  | Reset
  | SetInitial "Particle list"
  | Update float

fun exec :: "Simulation \<Rightarrow> command \<Rightarrow> Simulation" where
  "exec s (AddParticle p) = addParticle p s"
| "exec s Reset = reset s"
| "exec s (SetInitial init) = setInitial init s"
| "exec s (Update dt) = update dt s"

definition run :: "Simulation \<Rightarrow> command list \<Rightarrow> Simulation" where
  "run s cs = foldl exec s cs"

definition updates :: "Simulation \<Rightarrow> float list \<Rightarrow> Simulation" where
  "updates s dts = foldl (\<lambda>s dt. update dt s) s dts"

text \<open>
  The calls of a two-body driver: \<^verbatim>\<open>update\<close>, \<^verbatim>\<open>reset\<close>, and
  \<^verbatim>\<open>setInitial\<close> with exactly two particles; no \<^verbatim>\<open>addParticle\<close>.
\<close>

fun two_body_command :: "command \<Rightarrow> bool" where
  "two_body_command (AddParticle p) = False"
| "two_body_command Reset = True"
| "two_body_command (SetInitial init) = (length init = 2)"
| "two_body_command (Update dt) = True"

subsection \<open>Conditions used in the statements\<close>

definition fzero :: float where
  "fzero = Finite False 0"

text \<open>
  A particle that a zero time step leaves bit for bit as it is: its velocity is finite (an
  infinite one times zero is a NaN), and its position is a binary32 value that is neither
  a NaN nor \<open>-0\<close> (which the step may rewrite to \<open>+0\<close>).
\<close>

definition zero_step_stable :: "Particle \<Rightarrow> bool" where
  "zero_step_stable p =
     (is_finite (velocity p) \<and> \<not> is_nan (x_pos p) \<and> is_float32 (x_pos p)
      \<and> x_pos p \<noteq> Finite True 0)"



subsection \<open>Concrete configurations\<close>

text \<open>The two particles that \<^verbatim>\<open>main\<close> installs.\<close>

definition main_p1 :: Particle where
  "main_p1 = \<lparr>mass = Finite False 5, velocity = Finite False 10, x_pos = Finite False 0\<rparr>"

definition main_p2 :: Particle where
  "main_p2 = \<lparr>mass = Finite False 2, velocity = Finite False 0, x_pos = Finite False 20\<rparr>"

definition main_sim :: Simulation where
  "main_sim = setInitial [main_p1, main_p2] newSimulation"

text \<open>A three-particle configuration whose first two particles meet after two seconds.\<close>

definition three_body :: Simulation where
  "three_body =
     setInitial
       [\<lparr>mass = Finite False 3, velocity = Finite False 8, x_pos = Finite False 0\<rparr>,
        \<lparr>mass = Finite False 1, velocity = Finite False 0, x_pos = Finite False 16\<rparr>,
        \<lparr>mass = Finite False 1, velocity = Finite False 0, x_pos = Finite False 40\<rparr>]
       newSimulation"

text \<open>Two particles at rest, installed with the left one to the right of the other.\<close>

definition crossed_pair :: Simulation where
  "crossed_pair =
     setInitial
       [\<lparr>mass = Finite False 1, velocity = Finite False 0, x_pos = Finite False 5\<rparr>,
        \<lparr>mass = Finite False 1, velocity = Finite False 0, x_pos = Finite False 3\<rparr>]
       newSimulation"

text \<open>
  Three particles, the first to the right of the second and moving left fast enough to be
  on its left after one second.
\<close>

definition passing_three :: Simulation where
  "passing_three =
     setInitial
       [\<lparr>mass = Finite False 1, velocity = Finite True 8, x_pos = Finite False 4\<rparr>,
        \<lparr>mass = Finite False 1, velocity = Finite False 0, x_pos = Finite False 2\<rparr>,
        \<lparr>mass = Finite False 1, velocity = Finite False 0, x_pos = Finite False 100\<rparr>]
       newSimulation"



text \<open>
  A pair that meets only through rounding: the left particle at \<open>0\<close> with velocity \<open>3\<close>,
  the right one at rest at \<^verbatim>\<open>0.3f\<close>. With the step \<^verbatim>\<open>0.1f\<close> the product
  \<^verbatim>\<open>3 * 0.1f\<close> rounds up to \<^verbatim>\<open>0.3f\<close>, although \<^verbatim>\<open>0.1f\<close> times three is
  below \<^verbatim>\<open>0.3f\<close> as a number. The same pair with a third particle behind it.
\<close>

definition rounding_pair :: Simulation where
  "rounding_pair =
     setInitial
       [\<lparr>mass = Finite False 1, velocity = Finite False 3, x_pos = Finite False 0\<rparr>,
        \<lparr>mass = Finite False 1, velocity = Finite False 0, x_pos = float_lit (3 / 10)\<rparr>]
       newSimulation"

definition rounding_three :: Simulation where
  "rounding_three =
     setInitial
       [\<lparr>mass = Finite False 1, velocity = Finite False 3, x_pos = Finite False 0\<rparr>,
        \<lparr>mass = Finite False 1, velocity = Finite False 0, x_pos = float_lit (3 / 10)\<rparr>,
        \<lparr>mass = Finite False 1, velocity = Finite False 0, x_pos = Finite False 100\<rparr>]
       newSimulation"










section \<open>Facts about the arithmetic\<close>

lemma float_lit_values:
  "float_lit (1 / 2) = half"
  "float_lit (1 / 10) = Finite False (13421773 / 134217728)"
  "float_lit (3 / 10) = Finite False (5033165 / 16777216)"
  "float_lit (11 / 10) = Finite False (9227469 / 8388608)"
  "fdiv (Finite False 1) (Finite False 3) = Finite False (11184811 / 33554432)"
  "fdiv (Finite False 50) (Finite False 7) = Finite False (14979657 / 2097152)"
  "fmul (Finite False 3) (float_lit (1 / 10)) = float_lit (3 / 10)"
  "fmul (Finite False (10 ^ 30)) (Finite False (10 ^ 30)) = Infinity False"
  "fdiv (Finite False 1) (Finite True 0) = Infinity True"
  "fdiv (Finite False 0) (Finite False 0) = NaN"
  "fmul (Infinity False) fzero = NaN"
  by code_simp+

lemma pow2_pos: "0 < pow2 e"
  by (simp add: pow2_def)

lemma ulp_pos: "0 < ulp q"
  by (simp add: ulp_def pow2_pos)

lemma round32_representable:
  assumes "representable q"
  shows "round32 s q = Finite s q"
proof (cases "q = 0")
  case True
  then show ?thesis by (simp add: round32_def)
next
  case False
  with assms have whole: "of_int \<lfloor>q / ulp q\<rfloor> = q / ulp q" and small: "q < 2 ^ 128"
    by (simp_all add: representable_def)
  have "nearest_even (q / ulp q) = \<lfloor>q / ulp q\<rfloor>"
    by (simp add: nearest_even_def Let_def whole)
  then have "round_mag q = q"
    using ulp_pos [of q] by (simp add: round_mag_def whole)
  with False small show ?thesis by (simp add: round32_def)
qed

lemma fadd_signed_zero:
  assumes "\<not> is_nan x" and "is_float32 x" and "x \<noteq> Finite True 0"
  shows "fadd x (Finite t 0) = x"
proof (cases x)
  case (Finite s q)
  with assms(2) have r: "representable q" by simp
  then have nonneg: "0 \<le> q" by (simp add: representable_def)
  show ?thesis
  proof (cases "q = 0")
    case True
    with Finite assms(3) have "s = False" by (cases s) simp_all
    with True Finite show ?thesis by (simp add: signed_def Let_def)
  next
    case False
    with nonneg have pos: "0 < q" by simp
    then have "fadd (Finite s q) (Finite t 0) = round32 s q"
      by (cases s) (simp_all add: signed_def Let_def)
    also from r have "\<dots> = Finite s q" by (rule round32_representable)
    finally show ?thesis by (simp only: Finite)
  qed
next
  case (Infinity s)
  then show ?thesis by simp
next
  case NaN
  with assms(1) show ?thesis by simp
qed

lemma fmul_zero_step:
  assumes "is_finite v"
  shows "\<exists>t. fmul v fzero = Finite t 0"
proof -
  from assms obtain s q where "v = Finite s q" by (cases v) simp_all
  then show ?thesis by (simp add: fzero_def round32_def)
qed

lemma fmul_half: "fmul half y = fdiv y (Finite False 2)"
  by (cases y) (simp_all add: half_def mult.commute)





section \<open>Basic facts\<close>

lemma advance_fields [simp]:
  "mass (advance dt p) = mass p"
  "velocity (advance dt p) = velocity p"
  "x_pos (advance dt p) = fadd (x_pos p) (fmul (velocity p) dt)"
  by (simp_all add: advance_def)

lemma handleCollision_advance [simp]:
  "handleCollision (advance dt p) (advance dt q) = handleCollision p q"
  by (simp add: handleCollision_def)

lemma update_initial [simp]: "initial (update dt s) = initial s"
  by (simp add: update_def Let_def)

lemma update_hasCollided_mono: "hasCollided s \<Longrightarrow> hasCollided (update dt s)"
  by (simp add: update_def Let_def)

lemma update_no_test:
  "length (particles s) < 2 \<or> hasCollided s \<Longrightarrow>
     update dt s = s\<lparr>particles := map (advance dt) (particles s)\<rparr>"
  by (auto simp add: update_def Let_def)

lemma nth_advance:
  assumes "2 \<le> length ps"
  shows "map (advance dt) ps ! 0 = advance dt (ps ! 0)"
    and "map (advance dt) ps ! 1 = advance dt (ps ! 1)"
proof -
  from assms have "0 < length ps" and "1 < length ps" by linarith+
  then show "map (advance dt) ps ! 0 = advance dt (ps ! 0)"
    and "map (advance dt) ps ! 1 = advance dt (ps ! 1)"
    by (simp_all only: nth_map)
qed

lemma update_no_merge:
  assumes "\<not> fge (x_pos (advance dt (particles s ! 0))) (x_pos (advance dt (particles s ! 1)))"
  shows "update dt s = s\<lparr>particles := map (advance dt) (particles s)\<rparr>"
proof (cases "2 \<le> length (particles s)")
  case True
  with assms show ?thesis
    by (simp add: update_def Let_def nth_advance del: One_nat_def)
next
  case False
  then show ?thesis by (simp add: update_def Let_def)
qed

lemma update_merge:
  assumes "2 \<le> length (particles s)" and "\<not> hasCollided s"
    and "fge (x_pos (advance dt (particles s ! 0))) (x_pos (advance dt (particles s ! 1)))"
  shows "update dt s =
    s\<lparr>particles :=
         [\<lparr>mass = fadd (mass (particles s ! 0)) (mass (particles s ! 1)),
           velocity = handleCollision (particles s ! 0) (particles s ! 1),
           x_pos = fmul half (fadd (x_pos (advance dt (particles s ! 0)))
                                   (x_pos (advance dt (particles s ! 1))))\<rparr>],
       hasCollided := True\<rparr>"
  using assms by (simp add: update_def Let_def nth_advance del: One_nat_def)

text \<open>The states used below, evaluated.\<close>

lemma main_sim_particles: "particles main_sim = [main_p1, main_p2]"
  by (simp add: main_sim_def setInitial_def)

lemma main_sim_flag: "\<not> hasCollided main_sim"
  by (simp add: main_sim_def setInitial_def)

lemma main_sim_update_2:
  "update (Finite False 2) main_sim =
     \<lparr>particles = [\<lparr>mass = Finite False 7, velocity = Finite False (14979657 / 2097152),
                     x_pos = Finite False 20\<rparr>],
      initial = [main_p1, main_p2], hasCollided = True\<rparr>"
  by code_simp

lemma main_sim_update_1:
  "update (Finite False 1) main_sim =
     \<lparr>particles = [\<lparr>mass = Finite False 5, velocity = Finite False 10,
                     x_pos = Finite False 10\<rparr>, main_p2],
      initial = [main_p1, main_p2], hasCollided = False\<rparr>"
  by code_simp

section \<open>The merge\<close>

text \<open>
  Claim C1. When the collision fires during \<^verbatim>\<open>update\<close> on a two-element particle
  sequence \<open>[a, b]\<close> (the flag is false and the test \<^verbatim>\<open>>=\<close> holds of the two
  positions after the integration step of this call), the sequence becomes the single
  particle of mass \<open>m1 + m2\<close>, velocity \<open>(m1*v1 + m2*v2) / (m1 + m2)\<close> and position
  the sum of the two positions at detection time divided by two, each operation being the
  float one; the collided flag is set.
\<close>

theorem update_fires_two_body:
  assumes "particles s = [a, b]" and "\<not> hasCollided s"
    and "fge (fadd (x_pos a) (fmul (velocity a) dt)) (fadd (x_pos b) (fmul (velocity b) dt))"
  shows "particles (update dt s) =
           [\<lparr>mass = fadd (mass a) (mass b),
             velocity = fdiv (fadd (fmul (mass a) (velocity a)) (fmul (mass b) (velocity b)))
                             (fadd (mass a) (mass b)),
             x_pos = fdiv (fadd (fadd (x_pos a) (fmul (velocity a) dt))
                                (fadd (x_pos b) (fmul (velocity b) dt)))
                          (Finite False 2)\<rparr>]
         \<and> hasCollided (update dt s)"
  using assms by (simp add: update_def Let_def handleCollision_def fmul_half)

theorem update_fires_two_body_witness:
  "particles (update (Finite False 2) main_sim) =
     [\<lparr>mass = Finite False 7, velocity = Finite False (14979657 / 2097152),
       x_pos = Finite False 20\<rparr>]
   \<and> hasCollided (update (Finite False 2) main_sim)"
proof -
  have "fge (fadd (x_pos main_p1) (fmul (velocity main_p1) (Finite False 2)))
            (fadd (x_pos main_p2) (fmul (velocity main_p2) (Finite False 2)))"
    by code_simp
  from update_fires_two_body [OF main_sim_particles main_sim_flag this]
  show ?thesis by (simp add: main_sim_update_2)
qed

section \<open>Detection\<close>

text \<open>
  Claim C2, as stated: the collision test is applied only while the sequence has length
  exactly 2. The guard of the source is \<^verbatim>\<open>particles.size() >= 2\<close>: on the
  three-particle configuration the test is applied and fires.
\<close>

theorem detection_length_three_counterexample:
  "length (particles three_body) = 3 \<and> \<not> hasCollided three_body
   \<and> hasCollided (update (Finite False 2) three_body)
   \<and> particles (update (Finite False 2) three_body) =
       [\<lparr>mass = Finite False 4, velocity = Finite False 6, x_pos = Finite False 16\<rparr>]"
  by code_simp

text \<open>
  Claim C2, amended: the collision test is applied while the sequence has length at least
  2 and the collided flag is false. An update turns the flag from false to true exactly
  when the test \<^verbatim>\<open>>=\<close> holds of the position at index 0 and the position at index
  1 as they are after the integration step of the same call (the rounded float positions
  only, no radius); otherwise the update leaves the integrated particles and the flag as
  they are.
\<close>

theorem update_fires_iff:
  "((\<not> hasCollided s \<and> hasCollided (update dt s)) =
      (2 \<le> length (particles s) \<and> \<not> hasCollided s \<and>
       fge (fadd (x_pos (particles s ! 0)) (fmul (velocity (particles s ! 0)) dt))
           (fadd (x_pos (particles s ! 1)) (fmul (velocity (particles s ! 1)) dt))))
   \<and> (\<not> (2 \<le> length (particles s) \<and> \<not> hasCollided s \<and>
          fge (fadd (x_pos (particles s ! 0)) (fmul (velocity (particles s ! 0)) dt))
              (fadd (x_pos (particles s ! 1)) (fmul (velocity (particles s ! 1)) dt)))
        \<longrightarrow> update dt s = s\<lparr>particles := map (advance dt) (particles s)\<rparr>)"
proof (cases "2 \<le> length (particles s) \<and> \<not> hasCollided s")
  case True
  then show ?thesis
    by (simp add: update_def Let_def nth_advance del: One_nat_def)
next
  case False
  then show ?thesis
    by (auto simp add: update_def Let_def)
qed

theorem update_fires_iff_witness:
  "hasCollided (update (float_lit (1 / 10)) rounding_pair)
   \<and> update (Finite False 1) main_sim =
       \<lparr>particles = [\<lparr>mass = Finite False 5, velocity = Finite False 10,
                       x_pos = Finite False 10\<rparr>, main_p2],
        initial = [main_p1, main_p2], hasCollided = False\<rparr>"
proof -
  have fires: "2 \<le> length (particles rounding_pair) \<and> \<not> hasCollided rounding_pair \<and>
       fge (fadd (x_pos (particles rounding_pair ! 0))
                 (fmul (velocity (particles rounding_pair ! 0)) (float_lit (1 / 10))))
           (fadd (x_pos (particles rounding_pair ! 1))
                 (fmul (velocity (particles rounding_pair ! 1)) (float_lit (1 / 10))))"
    by code_simp
  have apart: "\<not> fge (fadd (x_pos (particles main_sim ! 0))
                 (fmul (velocity (particles main_sim ! 0)) (Finite False 1)))
           (fadd (x_pos (particles main_sim ! 1))
                 (fmul (velocity (particles main_sim ! 1)) (Finite False 1)))"
    by code_simp
  from update_fires_iff [of rounding_pair "float_lit (1 / 10)"] fires
  have "hasCollided (update (float_lit (1 / 10)) rounding_pair)" by blast
  moreover from update_fires_iff [of main_sim "Finite False 1"] apart
  have "update (Finite False 1) main_sim
      = main_sim\<lparr>particles := map (advance (Finite False 1)) (particles main_sim)\<rparr>"
    by blast
  ultimately show ?thesis by (simp add: main_sim_update_1)
qed

section \<open>A zero time step\<close>

lemma advance_zero:
  assumes "zero_step_stable p"
  shows "advance fzero p = p"
proof -
  from assms obtain t where "fmul (velocity p) fzero = Finite t 0"
    using fmul_zero_step [of "velocity p"] by (auto simp add: zero_step_stable_def)
  moreover from assms have "fadd (x_pos p) (Finite t 0) = x_pos p"
    by (intro fadd_signed_zero) (simp_all add: zero_step_stable_def)
  ultimately show ?thesis by (simp add: advance_def)
qed

lemma map_advance_zero:
  assumes "\<forall>p \<in> set ps. zero_step_stable p"
  shows "map (advance fzero) ps = ps"
  using assms by (induction ps) (simp_all add: advance_zero)

text \<open>
  Claim C3, as stated: \<^verbatim>\<open>update(0)\<close> changes nothing in any state. The test
  runs after the integration whatever \<open>dt\<close> is: on two particles installed with
  \<open>position[0] \<ge> position[1]\<close> a zero step merges them.
\<close>

theorem update_zero_counterexample:
  "length (particles crossed_pair) = 2 \<and> \<not> hasCollided crossed_pair
   \<and> particles (update fzero crossed_pair) =
       [\<lparr>mass = Finite False 2, velocity = Finite False 0, x_pos = Finite False 4\<rparr>]
   \<and> hasCollided (update fzero crossed_pair)"
  by code_simp

text \<open>
  Claim C3, amended: \<^verbatim>\<open>update(0)\<close> never changes the initial snapshot. In a state
  where every particle has a finite velocity and a position other than NaN and \<open>-0\<close>, it
  leaves the whole state (every particle's position, velocity and mass, the particle
  count and the collided flag) bit for bit unchanged whenever the sequence has fewer than
  two particles, or the collided flag is true, or \<open>position[0] >= position[1]\<close> is
  false; in the remaining states it fires the merge. (A particle with an infinite or NaN
  velocity gets a NaN position from a zero step, and a position \<open>-0\<close> can become \<open>+0\<close>.)
\<close>

theorem update_zero:
  assumes "\<forall>p \<in> set (particles s). zero_step_stable p"
  shows "initial (update fzero s) = initial s
   \<and> (length (particles s) < 2 \<or> hasCollided s
        \<or> \<not> fge (x_pos (particles s ! 0)) (x_pos (particles s ! 1))
      \<longrightarrow> update fzero s = s)
   \<and> (2 \<le> length (particles s) \<and> \<not> hasCollided s
        \<and> fge (x_pos (particles s ! 0)) (x_pos (particles s ! 1))
      \<longrightarrow> hasCollided (update fzero s) \<and> length (particles (update fzero s)) = 1)"
proof (intro conjI impI)
  show "initial (update fzero s) = initial s" by simp
next
  have same: "map (advance fzero) (particles s) = particles s"
    using assms by (rule map_advance_zero)
  have nth: "advance fzero (particles s ! 0) = particles s ! 0"
    "advance fzero (particles s ! 1) = particles s ! 1"
    if "2 \<le> length (particles s)"
    using nth_advance [OF that, of fzero] by (simp_all only: same)
  {
    assume "length (particles s) < 2 \<or> hasCollided s
      \<or> \<not> fge (x_pos (particles s ! 0)) (x_pos (particles s ! 1))"
    then consider "length (particles s) < 2 \<or> hasCollided s"
      | "2 \<le> length (particles s)"
        "\<not> fge (x_pos (particles s ! 0)) (x_pos (particles s ! 1))"
      by fastforce
    then have "update fzero s = s\<lparr>particles := map (advance fzero) (particles s)\<rparr>"
    proof cases
      case 1
      then show ?thesis by (rule update_no_test)
    next
      case 2
      have "\<not> fge (x_pos (advance fzero (particles s ! 0)))
          (x_pos (advance fzero (particles s ! 1)))"
        unfolding nth [OF 2(1)] by (rule 2(2))
      then show ?thesis by (rule update_no_merge)
    qed
    then show "update fzero s = s" by (simp add: same)
  }
  {
    assume a: "2 \<le> length (particles s) \<and> \<not> hasCollided s
      \<and> fge (x_pos (particles s ! 0)) (x_pos (particles s ! 1))"
    then have "fge (x_pos (advance fzero (particles s ! 0)))
        (x_pos (advance fzero (particles s ! 1)))"
      by (simp only: nth)
    with a have "update fzero s =
      s\<lparr>particles :=
         [\<lparr>mass = fadd (mass (particles s ! 0)) (mass (particles s ! 1)),
           velocity = handleCollision (particles s ! 0) (particles s ! 1),
           x_pos = fmul half (fadd (x_pos (advance fzero (particles s ! 0)))
                                   (x_pos (advance fzero (particles s ! 1))))\<rparr>],
       hasCollided := True\<rparr>"
      by (intro update_merge) simp_all
    then show "hasCollided (update fzero s)"
      and "length (particles (update fzero s)) = 1"
      by simp_all
  }
qed

theorem update_zero_witness:
  "update fzero main_sim = main_sim
   \<and> hasCollided (update fzero crossed_pair)
   \<and> length (particles (update fzero crossed_pair)) = 1"
proof -
  have h1: "\<forall>p \<in> set (particles main_sim). zero_step_stable p" by code_simp
  have a1: "\<not> fge (x_pos (particles main_sim ! 0)) (x_pos (particles main_sim ! 1))"
    by code_simp
  have h2: "\<forall>p \<in> set (particles crossed_pair). zero_step_stable p" by code_simp
  have a2: "2 \<le> length (particles crossed_pair) \<and> \<not> hasCollided crossed_pair
      \<and> fge (x_pos (particles crossed_pair ! 0)) (x_pos (particles crossed_pair ! 1))"
    by code_simp
  from update_zero [OF h1] a1 update_zero [OF h2] a2 show ?thesis by blast
qed

section \<open>Reset\<close>

lemma updates_initial [simp]: "initial (updates s dts) = initial s"
  unfolding updates_def by (induction dts arbitrary: s) simp_all

text \<open>
  Claim C4. After \<^verbatim>\<open>setInitial(init)\<close> and any sequence of \<^verbatim>\<open>update\<close>
  calls, with or without a collision among them, \<^verbatim>\<open>reset()\<close> makes the particle
  sequence equal to \<open>init\<close>, clears the collided flag and leaves the stored snapshot,
  which is still \<open>init\<close>, as it was before the reset.
\<close>

theorem reset_after_updates:
  "particles (reset (updates (setInitial init s0) dts)) = init
   \<and> hasCollided (reset (updates (setInitial init s0) dts)) = False
   \<and> initial (reset (updates (setInitial init s0) dts))
       = initial (updates (setInitial init s0) dts)
   \<and> initial (reset (updates (setInitial init s0) dts)) = init"
  by (simp add: reset_def setInitial_def)

section \<open>The particle count\<close>

lemma run_snoc: "run s (cs @ [c]) = exec (run s cs) c"
  by (simp add: run_def)

lemma update_length:
  "length (particles (update dt s)) =
     (if 2 \<le> length (particles s) \<and> \<not> hasCollided s \<and> hasCollided (update dt s)
      then 1 else length (particles s))"
  by (simp add: update_def Let_def)

lemma two_body_exec:
  assumes "two_body_command c"
    and "length (initial s) = 2"
    and "length (particles s) = (if hasCollided s then 1 else 2)"
  shows "length (initial (exec s c)) = 2
    \<and> length (particles (exec s c)) = (if hasCollided (exec s c) then 1 else 2)"
proof (cases c)
  case (AddParticle p)
  with assms show ?thesis by simp
next
  case Reset
  with assms show ?thesis by (simp add: reset_def)
next
  case (SetInitial init)
  with assms show ?thesis by (simp add: setInitial_def)
next
  case (Update dt)
  with assms show ?thesis
    by (auto simp add: update_length update_hasCollided_mono)
qed

lemma two_body_run:
  assumes "length init = 2" and "\<forall>c \<in> set cs. two_body_command c"
  shows "length (initial (run (setInitial init s0) cs)) = 2
    \<and> length (particles (run (setInitial init s0) cs))
        = (if hasCollided (run (setInitial init s0) cs) then 1 else 2)"
  using assms(2)
proof (induction cs rule: rev_induct)
  case Nil
  from assms(1) show ?case by (simp add: run_def setInitial_def)
next
  case (snoc c cs)
  then show ?case by (simp add: run_snoc two_body_exec)
qed

text \<open>
  Claim C5, as stated: in every state reachable through the public operations after a
  \<^verbatim>\<open>setInitial\<close> with two particles the sequence has length 1 or 2, and the
  length goes back to 2 only through \<^verbatim>\<open>reset\<close> or \<^verbatim>\<open>setInitial\<close>.
  \<^verbatim>\<open>addParticle\<close> is public and unguarded: it makes the length 3 before a
  collision, and makes it 2 again after the merge, with the collided flag still true.
\<close>

theorem length_addParticle_counterexample:
  "length (particles (run newSimulation
      [SetInitial [main_p1, main_p2], AddParticle main_p2])) = 3
   \<and> length (particles (run newSimulation
      [SetInitial [main_p1, main_p2], Update (Finite False 2)])) = 1
   \<and> length (particles (run newSimulation
      [SetInitial [main_p1, main_p2], Update (Finite False 2), AddParticle main_p2])) = 2
   \<and> hasCollided (run newSimulation
      [SetInitial [main_p1, main_p2], Update (Finite False 2), AddParticle main_p2])"
  by code_simp

text \<open>
  Claim C5, amended: in every state reachable after a \<^verbatim>\<open>setInitial\<close> call with
  two particles through \<^verbatim>\<open>update\<close>, \<^verbatim>\<open>reset\<close> and \<^verbatim>\<open>setInitial\<close>
  with two particles (no \<^verbatim>\<open>addParticle\<close>), the particle sequence has length 2
  while the collided flag is false and length 1 once it is true. From such a state, an
  update changes the length only from 2 to 1, setting the flag, and once the length is 1
  no sequence of updates changes it.
\<close>

theorem two_body_length:
  assumes "length init = 2" and "\<forall>c \<in> set cs. two_body_command c"
  shows "length (particles (run (setInitial init s0) cs))
           = (if hasCollided (run (setInitial init s0) cs) then 1 else 2)
    \<and> (length (particles (update dt (run (setInitial init s0) cs)))
           = length (particles (run (setInitial init s0) cs))
        \<or> length (particles (run (setInitial init s0) cs)) = 2
           \<and> length (particles (update dt (run (setInitial init s0) cs))) = 1
           \<and> hasCollided (update dt (run (setInitial init s0) cs)))
    \<and> (length (particles (run (setInitial init s0) cs)) = 1 \<longrightarrow>
          length (particles (run (run (setInitial init s0) cs) (map Update dts))) = 1)"
proof (intro conjI impI)
  let ?s = "run (setInitial init s0) cs"
  from assms have inv: "length (particles ?s) = (if hasCollided ?s then 1 else 2)"
    by (simp add: two_body_run)
  then show "length (particles ?s) = (if hasCollided ?s then 1 else 2)" .
  from inv show "length (particles (update dt ?s)) = length (particles ?s)
        \<or> length (particles ?s) = 2
           \<and> length (particles (update dt ?s)) = 1
           \<and> hasCollided (update dt ?s)"
    by (auto simp add: update_length)
  assume one: "length (particles ?s) = 1"
  with inv have "hasCollided ?s" by (cases "hasCollided ?s") simp_all
  have "hasCollided s \<Longrightarrow> hasCollided (run s (map Update dts))
      \<and> length (particles (run s (map Update dts))) = length (particles s)" for s
    by (induction dts rule: rev_induct)
      (simp_all add: run_def update_length update_hasCollided_mono)
  with \<open>hasCollided ?s\<close> one show "length (particles (run ?s (map Update dts))) = 1"
    by simp
qed

theorem two_body_length_witness:
  "length (particles (run (setInitial [main_p1, main_p2] newSimulation)
      [Update (Finite False 1), Update (Finite False 1), Reset, Update (Finite False 2)])) = 1
   \<and> hasCollided (run (setInitial [main_p1, main_p2] newSimulation)
      [Update (Finite False 1), Update (Finite False 1), Reset, Update (Finite False 2)])
   \<and> length (particles (run (run (setInitial [main_p1, main_p2] newSimulation)
      [Update (Finite False 1), Update (Finite False 1), Reset, Update (Finite False 2)])
      (map Update [Finite False 1, Finite False 3]))) = 1"
proof -
  have h1: "length [main_p1, main_p2] = 2" by simp
  have h2: "\<forall>c \<in> set [Update (Finite False 1), Update (Finite False 1), Reset,
      Update (Finite False 2)]. two_body_command c" by simp
  have h3: "hasCollided (run (setInitial [main_p1, main_p2] newSimulation)
      [Update (Finite False 1), Update (Finite False 1), Reset, Update (Finite False 2)])"
    by code_simp
  from two_body_length [OF h1 h2, of newSimulation fzero "[Finite False 1, Finite False 3]"] h3
  show ?thesis by simp
qed

section \<open>After the merge\<close>

lemma update_collided:
  assumes "hasCollided s"
  shows "hasCollided (update dt s)"
    and "length (particles (update dt s)) = length (particles s)"
    and "map mass (particles (update dt s)) = map mass (particles s)"
    and "map velocity (particles (update dt s)) = map velocity (particles s)"
  using assms by (simp_all add: update_no_test comp_def)

text \<open>
  Claim C6. Once the collided flag is true, no sequence of \<^verbatim>\<open>update\<close> calls
  changes the particle count (so it never goes back to 2) and none fires the resolver
  again: the flag stays true and every particle keeps its mass and its velocity.
\<close>

theorem collided_updates:
  assumes "hasCollided s"
  shows "hasCollided (updates s dts)
    \<and> length (particles (updates s dts)) = length (particles s)
    \<and> map mass (particles (updates s dts)) = map mass (particles s)
    \<and> map velocity (particles (updates s dts)) = map velocity (particles s)"
  using assms unfolding updates_def
proof (induction dts rule: rev_induct)
  case Nil
  then show ?case by simp
next
  case (snoc dt dts)
  then show ?case by (simp add: update_collided)
qed

theorem collided_updates_witness:
  "hasCollided (updates (update (Finite False 2) main_sim)
      [Finite False 1, fzero, Finite False 3])
   \<and> length (particles (updates (update (Finite False 2) main_sim)
      [Finite False 1, fzero, Finite False 3])) = 1
   \<and> map mass (particles (updates (update (Finite False 2) main_sim)
      [Finite False 1, fzero, Finite False 3])) = [Finite False 7]
   \<and> map velocity (particles (updates (update (Finite False 2) main_sim)
      [Finite False 1, fzero, Finite False 3])) = [Finite False (14979657 / 2097152)]"
proof -
  have "hasCollided (update (Finite False 2) main_sim)"
    by (simp add: main_sim_update_2)
  from collided_updates [OF this, of "[Finite False 1, fzero, Finite False 3]"]
  show ?thesis by (simp add: main_sim_update_2)
qed

section \<open>Kinetic energy at the merge\<close>











section \<open>More than two particles\<close>

text \<open>
  Claim C8, as stated: the condition on the two positions is on the state in which
  \<^verbatim>\<open>update\<close> is called. The test reads the positions after the integration
  step: three particles with \<open>position[0] \<ge> position[1]\<close> at the call, the first moving
  left past the second during the step, are not merged.
\<close>

theorem merge_precondition_counterexample:
  "3 \<le> length (particles passing_three) \<and> \<not> hasCollided passing_three
   \<and> fge (x_pos (particles passing_three ! 0)) (x_pos (particles passing_three ! 1))
   \<and> length (particles (update (Finite False 1) passing_three)) = 3
   \<and> \<not> hasCollided (update (Finite False 1) passing_three)"
  by code_simp

text \<open>
  Claim C8, amended: if \<^verbatim>\<open>update\<close> is called when the sequence has three or
  more elements and the collided flag is false, and after the integration step of that
  call the test \<^verbatim>\<open>>=\<close> holds of the position at index 0 and the position at index
  1, then the whole sequence is replaced by the single particle combined from the first
  two: every particle at index 2 or beyond is discarded.
\<close>

theorem merge_discards_rest:
  assumes "particles s = a # b # c # rest" and "\<not> hasCollided s"
    and "fge (fadd (x_pos a) (fmul (velocity a) dt)) (fadd (x_pos b) (fmul (velocity b) dt))"
  shows "particles (update dt s) =
           [\<lparr>mass = fadd (mass a) (mass b),
             velocity = fdiv (fadd (fmul (mass a) (velocity a)) (fmul (mass b) (velocity b)))
                             (fadd (mass a) (mass b)),
             x_pos = fdiv (fadd (fadd (x_pos a) (fmul (velocity a) dt))
                                (fadd (x_pos b) (fmul (velocity b) dt)))
                          (Finite False 2)\<rparr>]
         \<and> hasCollided (update dt s)"
  using assms by (simp add: update_def Let_def handleCollision_def fmul_half)

theorem merge_discards_rest_witness:
  "particles (update (float_lit (1 / 10)) rounding_three) =
     [\<lparr>mass = Finite False 2, velocity = Finite False (3 / 2), x_pos = float_lit (3 / 10)\<rparr>]
   \<and> hasCollided (update (float_lit (1 / 10)) rounding_three)"
proof -
  let ?a = "\<lparr>mass = Finite False 1, velocity = Finite False 3, x_pos = Finite False 0\<rparr>"
  let ?b = "\<lparr>mass = Finite False 1, velocity = Finite False 0, x_pos = float_lit (3 / 10)\<rparr>"
  let ?c = "\<lparr>mass = Finite False 1, velocity = Finite False 0, x_pos = Finite False 100\<rparr>"
  have h1: "particles rounding_three = ?a # ?b # ?c # []"
    by (simp add: rounding_three_def setInitial_def)
  have h2: "\<not> hasCollided rounding_three"
    by (simp add: rounding_three_def setInitial_def)
  have h3: "fge (fadd (x_pos ?a) (fmul (velocity ?a) (float_lit (1 / 10))))
      (fadd (x_pos ?b) (fmul (velocity ?b) (float_lit (1 / 10))))"
    by code_simp
  have v: "update (float_lit (1 / 10)) rounding_three =
      rounding_three\<lparr>particles :=
        [\<lparr>mass = Finite False 2, velocity = Finite False (3 / 2),
          x_pos = float_lit (3 / 10)\<rparr>], hasCollided := True\<rparr>"
    by code_simp
  from merge_discards_rest [OF h1 h2 h3] show ?thesis by (simp add: v)
qed

section \<open>Adding particles\<close>

text \<open>
  Claim C9. \<^verbatim>\<open>addParticle\<close> appends the particle to the current sequence and
  leaves the initial snapshot and the collided flag as they are; a reset after any number
  of \<^verbatim>\<open>addParticle\<close> calls gives the state a reset without them gives, so the
  added particles are gone.
\<close>

theorem addParticle_frame:
  "particles (addParticle p s) = particles s @ [p]
   \<and> initial (addParticle p s) = initial s
   \<and> hasCollided (addParticle p s) = hasCollided s
   \<and> reset (addParticle p s) = reset s
   \<and> reset (foldl (\<lambda>s p. addParticle p s) s ps) = reset s
   \<and> particles (reset (foldl (\<lambda>s p. addParticle p s) s ps)) = initial s"
proof -
  have "reset (foldl (\<lambda>s p. addParticle p s) s ps) = reset s"
    by (induction ps arbitrary: s) (simp_all add: addParticle_def reset_def)
  then show ?thesis
    by (simp add: addParticle_def reset_def)
qed

section \<open>A negative time step\<close>






end
